theory Spec2Isabelle
  imports Complex_Main "HOL-Library.List_Lexorder"
begin

section \<open>Text values\<close>

text \<open>
  A JavaScript string is a sequence of UTF-16 code units, and \<open>length\<close> counts code units
  (one per Cyrillic letter). SQLite compares TEXT values unit by unit, a proper prefix first;
  that is the lexicographic order of lists.
\<close>

type_synonym jsstring = "nat list"

definition str :: "string \<Rightarrow> jsstring" where
  "str s = map of_char s"

section \<open>The rows of the store\<close>

text \<open>
  The rows of the three tables of \<open>schema.sql\<close>. The AUTOINCREMENT keys of
  \<open>query_keywords\<close> and \<open>usage_stats\<close> are never read and are left out. A REAL column
  holds an IEEE double; a double is taken as the real number it denotes, and doubles
  compare as those reals do.
\<close>

record conversation =
  cid :: jsstring
  user_query :: jsstring
  ai_response :: jsstring
  created_at :: jsstring
  updated_at :: jsstring
  query_hash :: jsstring
  similarity_score :: real
  usage_count :: int
  user_id :: "jsstring option"
  session_id :: "jsstring option"
  metadata :: jsstring

record query_keyword =
  kw_conversation_id :: jsstring
  keyword :: jsstring
  weight :: real

record usage_stat =
  us_conversation_id :: jsstring
  accessed_at :: jsstring
  us_user_id :: "jsstring option"
  us_session_id :: "jsstring option"

section \<open>What the libraries and the SQL engine do\<close>

text \<open>
  \<open>database.js\<close> calls four library functions whose code is not part of the repository:
  \<open>String.prototype.toLowerCase\<close>, the MD5 hex digest of \<open>crypto\<close>, and the word tokenizer
  and Porter stemmer of \<open>natural\<close>. SQLite is outside the repository too, and four things
  it does are not fixed by the text of the queries: \<open>sql_sum\<close> is its \<open>SUM\<close> over the
  weights of a group and \<open>sql_div\<close> its division of that sum by the integer written into
  the query, both on doubles, with the rounding of the engine; \<open>group_order\<close> is the order
  in which it hands on the groups of \<open>GROUP BY\<close>, which is the order that remains among rows
  equal on both \<open>ORDER BY\<close> keys; \<open>max_variables\<close> is the number of bound parameters it
  accepts in one statement. All of them are parameters of the model.
\<close>

record platform =
  toLowerCase :: "jsstring \<Rightarrow> jsstring"
  md5_hex :: "jsstring \<Rightarrow> jsstring"
  tokenize :: "jsstring \<Rightarrow> jsstring list"
  stem :: "jsstring \<Rightarrow> jsstring"
  sql_sum :: "real list \<Rightarrow> real"
  sql_div :: "real \<Rightarrow> nat \<Rightarrow> real"
  group_order :: "conversation list \<Rightarrow> conversation list"
  max_variables :: nat


text \<open>
  \<open>String.prototype.trim\<close> removes the ECMAScript WhiteSpace and LineTerminator code units
  from both ends.
\<close>

definition isWhiteSpace :: "nat \<Rightarrow> bool" where
  "isWhiteSpace u \<longleftrightarrow>
     u \<in> {9, 10, 11, 12, 13, 32, 160, 5760, 8232, 8233, 8239, 8287, 12288, 65279}
     \<or> (8192 \<le> u \<and> u \<le> 8202)"

definition trim :: "jsstring \<Rightarrow> jsstring" where
  "trim s = rev (dropWhile isWhiteSpace (rev (dropWhile isWhiteSpace s)))"

subsection \<open>generateQueryHash\<close>

definition generateQueryHash :: "platform \<Rightarrow> jsstring \<Rightarrow> jsstring" where
  "generateQueryHash P query =
     (let normalizedQuery = trim (toLowerCase P query)
      in md5_hex P normalizedQuery)"

subsection \<open>extractKeywords\<close>

text \<open>The stop-word set of \<open>extractKeywords\<close>, in the order of the source.\<close>

definition stopWords :: "jsstring list" where
  "stopWords =
    [[1080], [1074], [1085, 1072], [1089], [1087, 1086], [1076, 1083, 1103], [1086, 1090],
     [1076, 1086], [1082, 1072, 1082], [1095, 1090, 1086], [1101, 1090, 1086],
     [1080, 1083, 1080], [1085, 1086], [1072], [1078, 1077], [1091, 1078, 1077],
     [1077, 1097, 1077], [1090, 1086, 1083, 1100, 1082, 1086], [1076, 1072, 1078, 1077],
     [1084, 1086, 1078, 1077, 1090], [1073, 1099, 1090, 1100], [1074, 1089, 1077],
     [1074, 1089, 1077, 1075, 1086], [1087, 1088, 1080], [1095, 1077, 1088, 1077, 1079],
     [1085, 1072, 1076], [1087, 1086, 1076], [1073, 1077, 1079], [1080, 1079], [1082],
     [1086], [1086, 1073], [1087, 1088, 1086], [1079, 1072], [1087, 1077, 1088, 1077, 1076],
     [1087, 1086, 1089, 1083, 1077], [1084, 1077, 1078, 1076, 1091],
     [1089, 1088, 1077, 1076, 1080]]"

definition extractKeywords :: "platform \<Rightarrow> jsstring \<Rightarrow> jsstring list" where
  "extractKeywords P txt =
     (let words = tokenize P (toLowerCase P txt)
      in filter (\<lambda>word. length word > 2)
           (map (\<lambda>word. stem P word)
              (filter (\<lambda>word. length word > 2 \<and> word \<notin> set stopWords) words)))"


subsection \<open>Stand-ins for the platform on ASCII input\<close>

text \<open>
  Concrete runs need concrete library functions. \<open>asciiLower\<close> is \<open>toLowerCase\<close> on strings
  of ASCII code units. \<open>wordTokenizer\<close> splits at every run of code units outside
  \<open>A-Z a-z 0-9 _\<close> and the Cyrillic range, dropping empty pieces, as the word tokenizer does.
  \<open>porterFragment\<close> gives the Porter stem of the two words \<open>agreed\<close> and \<open>agre\<close> and leaves
  every other word as it is; the runs below use it only on words that the Porter rules do
  leave unchanged (\<open>rust\<close>, \<open>what\<close>). \<open>plainDigest\<close> is an injective stand-in for the
  digest, \<open>checksumDigest\<close> one of fixed length (two hex digits). \<open>exactSum\<close> and
  \<open>exactDiv\<close> add and divide without rounding; the runs below use them only where the
  double result is exact (weights 1, division by 1 or 2). \<open>idOrder\<close> hands the groups on
  by ascending id, as SQLite does for \<open>GROUP BY c.id\<close>; 32766 is the parameter bound of
  current SQLite builds.
\<close>


definition asciiLower :: "jsstring \<Rightarrow> jsstring" where
  "asciiLower s = map (\<lambda>u. if 65 \<le> u \<and> u \<le> 90 then u + 32 else u) s"

definition isWordUnit :: "nat \<Rightarrow> bool" where
  "isWordUnit u \<longleftrightarrow>
     (65 \<le> u \<and> u \<le> 90) \<or> (97 \<le> u \<and> u \<le> 122) \<or> (48 \<le> u \<and> u \<le> 57) \<or> u = 95
     \<or> (1040 \<le> u \<and> u \<le> 1103)"

fun splitWords :: "jsstring \<Rightarrow> jsstring \<Rightarrow> jsstring list" where
  "splitWords acc [] = (if acc = [] then [] else [rev acc])"
| "splitWords acc (u # us) =
     (if isWordUnit u then splitWords (u # acc) us
      else if acc = [] then splitWords [] us
      else rev acc # splitWords [] us)"

definition wordTokenizer :: "jsstring \<Rightarrow> jsstring list" where
  "wordTokenizer s = splitWords [] s"

definition porterFragment :: "jsstring \<Rightarrow> jsstring" where
  "porterFragment w =
     (if w = str ''agreed'' then str ''agre''
      else if w = str ''agre'' then str ''agr''
      else w)"

definition plainDigest :: "jsstring \<Rightarrow> jsstring" where
  "plainDigest s = s"

definition hexDigit :: "nat \<Rightarrow> nat" where
  "hexDigit d = (if d < 10 then 48 + d else 87 + d)"

definition checksumDigest :: "jsstring \<Rightarrow> jsstring" where
  "checksumDigest s =
     (let n = sum_list s mod 256 in [hexDigit (n div 16), hexDigit (n mod 16)])"

definition exactSum :: "real list \<Rightarrow> real" where
  "exactSum ws = sum_list ws"

definition exactDiv :: "real \<Rightarrow> nat \<Rightarrow> real" where
  "exactDiv s m = s / real m"

definition idOrder :: "conversation list \<Rightarrow> conversation list" where
  "idOrder cs = sort_key cid cs"

definition asciiPlatform :: platform where
  "asciiPlatform =
     \<lparr>toLowerCase = asciiLower, md5_hex = plainDigest,
      tokenize = wordTokenizer, stem = porterFragment,
      sql_sum = exactSum, sql_div = exactDiv, group_order = idOrder,
      max_variables = 32766\<rparr>"

text \<open>Joining keywords with single spaces gives the text that is tokenized again.\<close>

fun joinWords :: "jsstring list \<Rightarrow> jsstring" where
  "joinWords [] = []"
| "joinWords [w] = w"
| "joinWords (w # ws) = w @ 32 # joinWords ws"

section \<open>The store\<close>

text \<open>
  The three tables, rows in insertion order. The code never switches SQLite's foreign-key
  enforcement on, so the \<open>ON DELETE CASCADE\<close> clauses do not act and deleting a
  conversation leaves the other tables alone.
\<close>

record tables =
  conversations :: "conversation list"
  query_keywords :: "query_keyword list"
  usage_stats :: "usage_stat list"

text \<open>
  The one shared connection: the tables as every statement on it sees them, and, while a
  transaction is open, the tables as they were at \<open>BEGIN\<close>.
\<close>

record connection =
  cur :: tables
  saved :: "tables option"

definition initial_db :: connection where
  "initial_db = \<lparr>cur = \<lparr>conversations = [], query_keywords = [], usage_stats = []\<rparr>,
                  saved = None\<rparr>"

datatype error = StorageError | TypeError | RangeError

text \<open>
  How a promise ends: resolved, rejected, or never settled because the callback that
  should settle it threw. Nothing in the repository catches that exception: no later step
  of the call runs, the process ends, and a transaction that is open then is never
  committed.
\<close>

datatype 'a outcome = Resolved 'a | Rejected error | Uncaught error

text \<open>
  The SQLite binding (not part of the repository) chooses the \<open>this\<close> of a callback written
  with \<open>function\<close>: it passes the statement object, which carries \<open>lastID\<close> and \<open>changes\<close>
  and no \<open>db\<close>. \<open>cleanupOldRecords\<close> reads \<open>this.changes\<close> from it.
\<close>

datatype callback_this = Statement

text \<open>Which statements the storage layer fails in one call (disk, lock, ...).\<close>

record faults =
  fail_insert_conversation :: bool
  fail_get :: bool
  fail_all :: bool
  fail_update :: bool
  fail_insert_stat :: bool
  fail_delete :: bool

definition no_faults :: faults where
  "no_faults = \<lparr>fail_insert_conversation = False, fail_get = False, fail_all = False,
     fail_update = False, fail_insert_stat = False, fail_delete = False\<rparr>"

subsection \<open>Statements\<close>

text \<open>
  \<open>BEGIN\<close> inside an open transaction is an error that changes nothing; the code passes
  no callback to it. A failed statement changes nothing.
\<close>

definition run_begin :: "connection \<Rightarrow> connection" where
  "run_begin db = (case saved db of None \<Rightarrow> db\<lparr>saved := Some (cur db)\<rparr> | Some _ \<Rightarrow> db)"

text \<open>
  \<open>INSERT OR REPLACE INTO conversations\<close>: the rows that clash with the new one on the
  primary key \<open>id\<close> or on the UNIQUE \<open>query_hash\<close> are deleted, then the row is added.
\<close>

definition run_insert_conversation ::
  "bool \<Rightarrow> conversation \<Rightarrow> connection \<Rightarrow> error option \<times> connection" where
  "run_insert_conversation fails r db =
     (if fails then (Some StorageError, db)
      else (None, db\<lparr>cur := (cur db)\<lparr>conversations :=
              filter (\<lambda>c. cid c \<noteq> cid r \<and> query_hash c \<noteq> query_hash r)
                (conversations (cur db)) @ [r]\<rparr>\<rparr>))"

subsection \<open>saveConversation\<close>

text \<open>
  \<open>now\<close> is \<open>CURRENT_TIMESTAMP\<close>, \<open>conversationId\<close> the value of \<open>uuid.v4()\<close>, \<open>metadataJson\<close>
  the text of \<open>JSON.stringify(metadata)\<close>. \<open>inserted_row\<close> is the row the insert statement
  binds: seven values from the call and the constant 1 for \<open>usage_count\<close>; the other
  columns take the defaults of the schema.
\<close>

definition inserted_row ::
  "jsstring \<Rightarrow> jsstring \<Rightarrow> jsstring \<Rightarrow> jsstring \<Rightarrow> jsstring \<Rightarrow> jsstring option \<Rightarrow>
   jsstring option \<Rightarrow> jsstring \<Rightarrow> conversation" where
  "inserted_row now conversationId userQuery aiResponse queryHash userId sessionId metadataJson =
     \<lparr>cid = conversationId, user_query = userQuery, ai_response = aiResponse,
      created_at = now, updated_at = now, query_hash = queryHash,
      similarity_score = 0.0, usage_count = 1, user_id = userId,
      session_id = sessionId, metadata = metadataJson\<rparr>"

text \<open>
  \<open>BEGIN\<close> and the conversation insert are queued from arrow functions and run. The
  callback of the insert is written with \<open>function\<close>, so its \<open>this\<close> is the statement
  object and \<open>this.db\<close> is undefined. Each of its three paths starts with a call
  \<open>this.db.run(...)\<close>, which throws a TypeError: \<open>ROLLBACK\<close> before \<open>reject\<close> when the
  insert failed, \<open>COMMIT\<close> when there is no keyword, and the insert of the first keyword
  otherwise. No keyword insert, \<open>COMMIT\<close> or \<open>ROLLBACK\<close> is ever issued, and the promise
  is never settled.
\<close>

definition saveConversation ::
  "platform \<Rightarrow> callback_this \<Rightarrow> faults \<Rightarrow> jsstring \<Rightarrow> jsstring \<Rightarrow> jsstring \<Rightarrow> jsstring \<Rightarrow>
   jsstring option \<Rightarrow> jsstring option \<Rightarrow> jsstring \<Rightarrow> connection \<Rightarrow> jsstring outcome \<times> connection" where
  "saveConversation P this F now conversationId userQuery aiResponse userId sessionId metadataJson db =
     (let queryHash = generateQueryHash P userQuery;
          keywords = extractKeywords P userQuery;
          db1 = run_begin db;
          (err, db2) = run_insert_conversation (fail_insert_conversation F)
             (inserted_row now conversationId userQuery aiResponse queryHash userId sessionId
                metadataJson) db1
      in case this of
           Statement \<Rightarrow>
             (case err of
                Some e \<Rightarrow> (Uncaught TypeError, db2)
              | None \<Rightarrow>
                  if length keywords = 0 then (Uncaught TypeError, db2)
                  else (Uncaught TypeError, db2)))"

subsection \<open>updateUsageCount\<close>

text \<open>
  Two statements, each failing on its own and only logged. The trigger of the schema stamps
  \<open>updated_at\<close> of the updated row. Both callbacks are arrow functions.
\<close>

definition updateUsageCount :: "faults \<Rightarrow> jsstring \<Rightarrow> jsstring \<Rightarrow> connection \<Rightarrow> connection" where
  "updateUsageCount F now conversationId db =
     (let db1 = (if fail_update F then db
                 else db\<lparr>cur := (cur db)\<lparr>conversations :=
                        map (\<lambda>c. if cid c = conversationId
                                  then c\<lparr>usage_count := usage_count c + 1, updated_at := now\<rparr>
                                  else c)
                          (conversations (cur db))\<rparr>\<rparr>)
      in if fail_insert_stat F then db1
         else db1\<lparr>cur := (cur db1)\<lparr>usage_stats := usage_stats (cur db1) @
                [\<lparr>us_conversation_id = conversationId, accessed_at = now,
                  us_user_id = None, us_session_id = None\<rparr>]\<rparr>\<rparr>)"

subsection \<open>findSimilarConversations\<close>

text \<open>A row of the keyword query: the conversation's columns and the three aggregates.\<close>

record scored =
  s_conv :: conversation
  s_total_weight :: real
  s_keyword_matches :: nat
  s_similarity :: real

datatype match_type = Exact | Similar

record found =
  row :: conversation
  total_weight :: "real option"
  keyword_matches :: "nat option"
  similarity :: real
  matchType :: match_type

text \<open>
  The join restricted by \<open>WHERE k.keyword IN (...)\<close>, for one conversation: its keyword rows
  whose keyword is one of the query keywords.
\<close>

definition matching_keywords :: "jsstring list \<Rightarrow> conversation \<Rightarrow> tables \<Rightarrow> query_keyword list" where
  "matching_keywords queryKeywords c T =
     filter (\<lambda>k. kw_conversation_id k = cid c \<and> keyword k \<in> set queryKeywords)
       (query_keywords T)"


text \<open>
  \<open>GROUP BY c.id\<close> with the aggregates. \<open>id\<close> is the primary key, so a group is one
  conversation with at least one joined row. The sum and the quotient are the engine's;
  the divisor is \<open>queryKeywords.length\<close>.
\<close>

definition score_row :: "platform \<Rightarrow> jsstring list \<Rightarrow> tables \<Rightarrow> conversation \<Rightarrow> scored" where
  "score_row P queryKeywords T c =
     (let ms = matching_keywords queryKeywords c T;
          total = sql_sum P (map weight ms)
      in \<lparr>s_conv = c, s_total_weight = total, s_keyword_matches = length ms,
          s_similarity = sql_div P total (length queryKeywords)\<rparr>)"

definition grouped :: "platform \<Rightarrow> jsstring list \<Rightarrow> tables \<Rightarrow> scored list" where
  "grouped P queryKeywords T =
     map (score_row P queryKeywords T)
       (group_order P
          (filter (\<lambda>c. matching_keywords queryKeywords c T \<noteq> []) (conversations T)))"

text \<open>
  \<open>ORDER BY similarity DESC, c.usage_count DESC\<close>: the groups are put in that order, and
  groups equal on both keys stay as the engine handed them on.
\<close>

definition ranks_before :: "scored \<Rightarrow> scored \<Rightarrow> bool" where
  "ranks_before a b \<longleftrightarrow>
     s_similarity a > s_similarity b
     \<or> (s_similarity a = s_similarity b \<and> usage_count (s_conv a) \<ge> usage_count (s_conv b))"

fun insert_row :: "scored \<Rightarrow> scored list \<Rightarrow> scored list" where
  "insert_row r [] = [r]"
| "insert_row r (x # xs) = (if ranks_before r x then r # x # xs else x # insert_row r xs)"

fun order_rows :: "scored list \<Rightarrow> scored list" where
  "order_rows [] = []"
| "order_rows (r # rs) = insert_row r (order_rows rs)"

text \<open>\<open>LIMIT n\<close>: a negative \<open>n\<close> is no limit.\<close>

definition sql_limit :: "int \<Rightarrow> 'a list \<Rightarrow> 'a list" where
  "sql_limit n xs = (if n < 0 then xs else take (nat n) xs)"


text \<open>The groups that pass \<open>HAVING similarity >= ?\<close>, in the order of \<open>ORDER BY\<close>.\<close>

definition ranked_candidates :: "platform \<Rightarrow> jsstring list \<Rightarrow> real \<Rightarrow> tables \<Rightarrow> scored list" where
  "ranked_candidates P queryKeywords minSimilarity T =
     order_rows (filter (\<lambda>r. s_similarity r \<ge> minSimilarity) (grouped P queryKeywords T))"

text \<open>
  The statement binds one parameter for each query keyword and two more. The engine
  refuses it when that is more than it accepts, and it refuses a \<open>LIMIT\<close> that is not a
  64-bit integer; either way the callback gets the error.
\<close>

definition select_similar ::
  "platform \<Rightarrow> bool \<Rightarrow> jsstring list \<Rightarrow> real \<Rightarrow> int \<Rightarrow> tables \<Rightarrow> error + scored list" where
  "select_similar P fails queryKeywords minSimilarity limit T =
     (if fails \<or> max_variables P < length queryKeywords + 2
         \<or> limit < - (2 ^ 63) \<or> 2 ^ 63 \<le> limit
      then Inl StorageError
      else Inr (sql_limit limit (ranked_candidates P queryKeywords minSimilarity T)))"

text \<open>The object built from a row of the keyword query, and the one built from an exact match.\<close>

definition as_similar :: "scored \<Rightarrow> found" where
  "as_similar r =
     \<lparr>row = s_conv r, total_weight = Some (s_total_weight r),
      keyword_matches = Some (s_keyword_matches r), similarity = s_similarity r,
      matchType = Similar\<rparr>"

definition as_exact :: "conversation \<Rightarrow> found" where
  "as_exact exactMatch =
     \<lparr>row = exactMatch, total_weight = None, keyword_matches = None, similarity = 1.0,
      matchType = Exact\<rparr>"

definition select_by_hash :: "bool \<Rightarrow> jsstring \<Rightarrow> tables \<Rightarrow> error + conversation option" where
  "select_by_hash fails queryHash T =
     (if fails then Inl StorageError
      else Inr (find (\<lambda>c. query_hash c = queryHash) (conversations T)))"

text \<open>The double that the literal \<open>0.3\<close> denotes.\<close>

definition double_0_3 :: real where
  "double_0_3 = 5404319552844595 / 18014398509481984"

text \<open>
  \<open>limit\<close> and \<open>minSimilarity\<close> default to 5 and 0.3. The rows handed back were read before
  the usage counters are increased.
\<close>

definition findSimilarConversations ::
  "platform \<Rightarrow> faults \<Rightarrow> jsstring \<Rightarrow> jsstring \<Rightarrow> int option \<Rightarrow> real option \<Rightarrow> connection \<Rightarrow>
   found list outcome \<times> connection" where
  "findSimilarConversations P F now query limitArg minSimilarityArg db =
     (let limit = (case limitArg of None \<Rightarrow> 5 | Some n \<Rightarrow> n);
          minSimilarity = (case minSimilarityArg of None \<Rightarrow> double_0_3 | Some t \<Rightarrow> t);
          queryKeywords = extractKeywords P query;
          queryHash = generateQueryHash P query
      in case select_by_hash (fail_get F) queryHash (cur db) of
           Inl e \<Rightarrow> (Rejected e, db)
         | Inr (Some exactMatch) \<Rightarrow>
             (Resolved [as_exact exactMatch], updateUsageCount F now (cid exactMatch) db)
         | Inr None \<Rightarrow>
             if length queryKeywords = 0 then (Resolved [], db)
             else
               (case select_similar P (fail_all F) queryKeywords minSimilarity limit (cur db) of
                  Inl e \<Rightarrow> (Rejected e, db)
                | Inr rows \<Rightarrow>
                    (Resolved (map as_similar rows),
                     foldl (\<lambda>d r. updateUsageCount F now (cid (s_conv r)) d) db rows)))"

subsection \<open>cleanupOldRecords\<close>

text \<open>
  \<open>isoDaysAgo d\<close> is \<open>toISOString()\<close> of the current date moved back \<open>d\<close> days (the \<open>Date\<close>
  arithmetic of the platform). It is \<open>None\<close> when that date is outside the range of \<open>Date\<close>:
  then \<open>toISOString\<close> throws a RangeError inside the promise's executor, before any
  statement is issued, and the promise is rejected with it. \<open>daysOld\<close> defaults to 30. The
  comparison \<open>created_at < ?\<close> is a comparison of two TEXT values. The callback is written
  with \<open>function\<close> and resolves with \<open>this.changes\<close> of the statement object, the number of
  rows the statement deleted.
\<close>

definition cleanupOldRecords ::
  "(int \<Rightarrow> jsstring option) \<Rightarrow> callback_this \<Rightarrow> faults \<Rightarrow> int option \<Rightarrow> connection \<Rightarrow>
   nat outcome \<times> connection" where
  "cleanupOldRecords isoDaysAgo this F daysOldArg db =
     (let daysOld = (case daysOldArg of None \<Rightarrow> 30 | Some d \<Rightarrow> d)
      in case isoDaysAgo daysOld of
           None \<Rightarrow> (Rejected RangeError, db)
         | Some cutoffDate \<Rightarrow>
             if fail_delete F then (Rejected StorageError, db)
             else
               (let kept = filter (\<lambda>c. \<not> (created_at c < cutoffDate \<and> usage_count c < 2))
                             (conversations (cur db));
                    changes = length (filter (\<lambda>c. created_at c < cutoffDate \<and> usage_count c < 2)
                                        (conversations (cur db)))
                in case this of
                     Statement \<Rightarrow>
                       (Resolved changes, db\<lparr>cur := (cur db)\<lparr>conversations := kept\<rparr>\<rparr>)))"

section \<open>Key constraints\<close>

text \<open>
  The PRIMARY KEY on \<open>id\<close> and the UNIQUE constraint on \<open>query_hash\<close>, as a property of the
  tables a connection sees and of the ones a rollback would restore.
\<close>

definition keys_unique :: "tables \<Rightarrow> bool" where
  "keys_unique T \<longleftrightarrow>
     distinct (map query_hash (conversations T)) \<and> distinct (map cid (conversations T))"

definition conn_ok :: "connection \<Rightarrow> bool" where
  "conn_ok db \<longleftrightarrow>
     keys_unique (cur db) \<and> (case saved db of None \<Rightarrow> True | Some s \<Rightarrow> keys_unique s)"

section \<open>The wording of the specification, for comparison\<close>

text \<open>
  Purge as the specification words it: the usage bound is an argument. The similarity of
  the specification divides by the size of the keyword set.
\<close>

definition Purge_spec :: "jsstring \<Rightarrow> int \<Rightarrow> conversation list \<Rightarrow> conversation list" where
  "Purge_spec cutoff minUsageThreshold cs =
     filter (\<lambda>c. \<not> (created_at c < cutoff \<and> usage_count c < minUsageThreshold)) cs"


section \<open>Concrete data for the examples\<close>

text \<open>
  The clock read on 2 November 2026 at 10:00 UTC, at the three offsets the examples use:
  0 days, 30 days, and 200000000 days, which is before the first date a \<open>Date\<close> can hold.
  No other offset is used.
\<close>

definition clock_2026_11_02 :: "int \<Rightarrow> jsstring option" where
  "clock_2026_11_02 d =
     (if d = 30 then Some (str ''2026-10-03T10:00:00.000Z'')
      else if d = 200000000 then None
      else Some (str ''2026-11-02T10:00:00.000Z''))"

definition rust_conversation :: "jsstring \<Rightarrow> jsstring \<Rightarrow> int \<Rightarrow> conversation" where
  "rust_conversation i created n =
     \<lparr>cid = i, user_query = str ''what is rust'', ai_response = str ''a language'',
      created_at = created, updated_at = created, query_hash = str ''what is rust'',
      similarity_score = 0.0, usage_count = n, user_id = None, session_id = None,
      metadata = str ''{}''\<rparr>"

text \<open>
  Two conversations with the one keyword \<open>rust\<close> of weight 1 each: used 3 and 7 times in
  \<open>tie_db\<close>; both used 3 times, the later id first in the table, in \<open>full_tie_db\<close>.
\<close>

definition tie_conversation :: "jsstring \<Rightarrow> jsstring \<Rightarrow> int \<Rightarrow> conversation" where
  "tie_conversation i q n =
     \<lparr>cid = i, user_query = q, ai_response = str ''an answer'',
      created_at = str ''2026-10-30 08:00:00'', updated_at = str ''2026-10-30 08:00:00'',
      query_hash = q, similarity_score = 0.0, usage_count = n, user_id = None,
      session_id = None, metadata = str ''{}''\<rparr>"


definition full_tie_db :: connection where
  "full_tie_db =
     \<lparr>cur = \<lparr>conversations =
               [tie_conversation (str ''id-b'') (str ''rust lang'') 3,
                tie_conversation (str ''id-a'') (str ''rust book'') 3],
             query_keywords =
               [\<lparr>kw_conversation_id = str ''id-b'', keyword = str ''rust'', weight = 1\<rparr>,
                \<lparr>kw_conversation_id = str ''id-a'', keyword = str ''rust'', weight = 1\<rparr>],
             usage_stats = []\<rparr>,
      saved = None\<rparr>"

text \<open>One save of the query \<open>What is Rust\<close>, keywords \<open>what\<close> and \<open>rust\<close>.\<close>

definition save_rust :: "callback_this \<Rightarrow> faults \<Rightarrow> connection \<Rightarrow> jsstring outcome \<times> connection" where
  "save_rust this F db =
     saveConversation asciiPlatform this F (str ''2026-11-02 10:00:00'') (str ''id-2'')
       (str ''What is Rust'') (str ''a language'') None None (str ''{}'') db"

definition one_conversation :: "conversation \<Rightarrow> query_keyword list \<Rightarrow> connection" where
  "one_conversation c ks =
     \<lparr>cur = \<lparr>conversations = [c], query_keywords = ks, usage_stats = []\<rparr>, saved = None\<rparr>"

text \<open>
  The save of the query \<open>hi\<close>, which has no keyword, and a store that holds one
  conversation for the query \<open>what is rust\<close> with its two keyword rows.
\<close>

definition save_hi :: "callback_this \<Rightarrow> jsstring outcome \<times> connection" where
  "save_hi this =
     saveConversation asciiPlatform this no_faults (str ''2026-11-02 10:00:00'') (str ''id-1'')
       (str ''hi'') (str ''hello'') None None (str ''{}'') initial_db"

definition rust_db :: "int \<Rightarrow> connection" where
  "rust_db n =
     one_conversation (rust_conversation (str ''id-1'') (str ''2026-09-23 10:00:00'') n)
       [\<lparr>kw_conversation_id = str ''id-1'', keyword = str ''what'', weight = 1\<rparr>,
        \<lparr>kw_conversation_id = str ''id-1'', keyword = str ''rust'', weight = 9 / 10\<rparr>]"

section \<open>Properties\<close>

lemmas ascii_defs = extractKeywords_def asciiPlatform_def asciiLower_def wordTokenizer_def
  isWordUnit_def porterFragment_def str_def stopWords_def plainDigest_def

subsection \<open>Fingerprint\<close>

lemma trim_lower_padded:
  "trim (toLowerCase asciiPlatform (str '' Hello World '')) = str ''hello world''"
  by (simp add: trim_def asciiPlatform_def asciiLower_def str_def isWhiteSpace_def)

lemma trim_lower_plain:
  "trim (toLowerCase asciiPlatform (str ''hello world'')) = str ''hello world''"
  by (simp add: trim_def asciiPlatform_def asciiLower_def str_def isWhiteSpace_def)

text \<open>
  C8: the fingerprint is the digest of the lower-cased, trimmed query text and of nothing
  else. Two texts that agree after lower-casing and trimming get the same fingerprint, and a
  digest function of fixed length gives fingerprints of that length.
\<close>

theorem generateQueryHash_normalized:
  "generateQueryHash P q = md5_hex P (trim (toLowerCase P q))
   \<and> (trim (toLowerCase P a) = trim (toLowerCase P b)
        \<longrightarrow> generateQueryHash P a = generateQueryHash P b)
   \<and> ((\<forall>s. length (md5_hex P s) = n) \<longrightarrow> length (generateQueryHash P q) = n)"
  by (simp add: generateQueryHash_def)

theorem generateQueryHash_normalized_witness:
  "trim (toLowerCase asciiPlatform (str '' Hello World ''))
     = trim (toLowerCase asciiPlatform (str ''hello world''))
   \<and> generateQueryHash asciiPlatform (str '' Hello World '')
     = generateQueryHash asciiPlatform (str ''hello world'')
   \<and> (\<forall>s. length (md5_hex (asciiPlatform\<lparr>md5_hex := checksumDigest\<rparr>) s) = 2)
   \<and> length (generateQueryHash (asciiPlatform\<lparr>md5_hex := checksumDigest\<rparr>)
               (str '' Hello World '')) = 2"
proof -
  have e: "trim (toLowerCase asciiPlatform (str '' Hello World ''))
     = trim (toLowerCase asciiPlatform (str ''hello world''))"
    by (simp only: trim_lower_padded trim_lower_plain)
  have l: "\<forall>s. length (md5_hex (asciiPlatform\<lparr>md5_hex := checksumDigest\<rparr>) s) = 2"
    by (simp add: checksumDigest_def Let_def)
  from generateQueryHash_normalized
         [of asciiPlatform "str '' Hello World ''" "str '' Hello World ''"
             "str ''hello world''" 2]
       generateQueryHash_normalized
         [of "asciiPlatform\<lparr>md5_hex := checksumDigest\<rparr>" "str '' Hello World ''" "[]" "[]" 2]
       e l
  show ?thesis by blast
qed

subsection \<open>Keyword extraction\<close>

lemma extractKeywords_output_long: "k \<in> set (extractKeywords P x) \<Longrightarrow> length k > 2"
  by (simp add: extractKeywords_def)

lemma kw_what_is_rust:
  "extractKeywords asciiPlatform (str ''What is Rust'') = [str ''what'', str ''rust'']"
  by (simp add: ascii_defs)

lemma kw_agreed: "extractKeywords asciiPlatform (str ''agreed'') = [str ''agre'']"
  by (simp add: ascii_defs)

text \<open>
  C7, as amended: lower-casing the text once more before extraction changes nothing when
  lower-casing is idempotent. Extracting again from the joined keywords gives the same
  keywords when the tokenizer splits the joined text back into them and every keyword is a
  fixed point of the stemmer and no stop word. Without that it need not: the stems are
  stemmed again.
\<close>

theorem extractKeywords_lowercase_stable:
  "(toLowerCase P (toLowerCase P x) = toLowerCase P x
      \<longrightarrow> extractKeywords P (toLowerCase P x) = extractKeywords P x)
   \<and> (tokenize P (toLowerCase P (joinWords (extractKeywords P x))) = extractKeywords P x
      \<and> (\<forall>k \<in> set (extractKeywords P x). stem P k = k \<and> k \<notin> set stopWords)
      \<longrightarrow> extractKeywords P (joinWords (extractKeywords P x)) = extractKeywords P x)"
proof (intro conjI impI)
  assume "toLowerCase P (toLowerCase P x) = toLowerCase P x"
  then show "extractKeywords P (toLowerCase P x) = extractKeywords P x"
    by (simp add: extractKeywords_def)
next
  let ?ks = "extractKeywords P x"
  assume h: "tokenize P (toLowerCase P (joinWords ?ks)) = ?ks
      \<and> (\<forall>k \<in> set ?ks. stem P k = k \<and> k \<notin> set stopWords)"
  have long: "\<forall>k \<in> set ?ks. length k > 2"
    using extractKeywords_output_long by blast
  have f1: "filter (\<lambda>word. length word > 2 \<and> word \<notin> set stopWords) ?ks = ?ks"
    using h long by (simp add: filter_id_conv)
  have f2: "map (\<lambda>word. stem P word) ?ks = ?ks"
    using h by (simp add: map_idI)
  have f3: "filter (\<lambda>word. length word > 2) ?ks = ?ks"
    using long by (simp add: filter_id_conv)
  have "extractKeywords P (joinWords ?ks)
          = filter (\<lambda>word. length word > 2)
              (map (\<lambda>word. stem P word)
                 (filter (\<lambda>word. length word > 2 \<and> word \<notin> set stopWords) ?ks))"
    using h by (simp add: extractKeywords_def[of P "joinWords ?ks"])
  then show "extractKeywords P (joinWords ?ks) = ?ks"
    by (simp only: f1 f2 f3)
qed

theorem extractKeywords_lowercase_stable_witness:
  "toLowerCase asciiPlatform (toLowerCase asciiPlatform (str ''What is Rust''))
     = toLowerCase asciiPlatform (str ''What is Rust'')
   \<and> extractKeywords asciiPlatform (toLowerCase asciiPlatform (str ''What is Rust''))
     = extractKeywords asciiPlatform (str ''What is Rust'')
   \<and> tokenize asciiPlatform (toLowerCase asciiPlatform
        (joinWords (extractKeywords asciiPlatform (str ''What is Rust''))))
     = extractKeywords asciiPlatform (str ''What is Rust'')
   \<and> extractKeywords asciiPlatform (str ''What is Rust'') = [str ''what'', str ''rust'']
   \<and> stem asciiPlatform (str ''what'') = str ''what'' \<and> str ''what'' \<notin> set stopWords
   \<and> stem asciiPlatform (str ''rust'') = str ''rust'' \<and> str ''rust'' \<notin> set stopWords
   \<and> extractKeywords asciiPlatform
        (joinWords (extractKeywords asciiPlatform (str ''What is Rust'')))
     = extractKeywords asciiPlatform (str ''What is Rust'')"
proof -
  have a: "toLowerCase asciiPlatform (toLowerCase asciiPlatform (str ''What is Rust''))
     = toLowerCase asciiPlatform (str ''What is Rust'')"
    by (simp add: ascii_defs)
  have b: "tokenize asciiPlatform (toLowerCase asciiPlatform
        (joinWords (extractKeywords asciiPlatform (str ''What is Rust''))))
     = extractKeywords asciiPlatform (str ''What is Rust'')"
    unfolding kw_what_is_rust by (simp add: ascii_defs)
  have c: "\<forall>k \<in> set (extractKeywords asciiPlatform (str ''What is Rust'')).
         stem asciiPlatform k = k \<and> k \<notin> set stopWords"
    unfolding kw_what_is_rust by (simp add: ascii_defs)
  have d: "stem asciiPlatform (str ''what'') = str ''what'' \<and> str ''what'' \<notin> set stopWords
      \<and> stem asciiPlatform (str ''rust'') = str ''rust'' \<and> str ''rust'' \<notin> set stopWords"
    by (simp add: ascii_defs)
  from extractKeywords_lowercase_stable [of asciiPlatform "str ''What is Rust''"] a b c
  have "extractKeywords asciiPlatform (toLowerCase asciiPlatform (str ''What is Rust''))
          = extractKeywords asciiPlatform (str ''What is Rust'')
        \<and> extractKeywords asciiPlatform
            (joinWords (extractKeywords asciiPlatform (str ''What is Rust'')))
          = extractKeywords asciiPlatform (str ''What is Rust'')"
    by blast
  with a b d kw_what_is_rust show ?thesis by blast
qed

text \<open>
  The claim as it is written fails at the text \<open>agreed\<close>: its keyword is the stem \<open>agre\<close>,
  and the keyword of \<open>agre\<close> is \<open>agr\<close>.
\<close>

theorem extractKeywords_not_idempotent:
  "extractKeywords asciiPlatform (joinWords (extractKeywords asciiPlatform (str ''agreed'')))
     \<noteq> extractKeywords asciiPlatform (str ''agreed'')"
  unfolding kw_agreed by (simp add: ascii_defs)


subsection \<open>Saving\<close>

lemma inserted_row_sel:
  "cid (inserted_row now c q a h u s m) = c"
  "query_hash (inserted_row now c q a h u s m) = h"
  "usage_count (inserted_row now c q a h u s m) = 1"
  by (simp_all add: inserted_row_def)

lemma save_statement:
  "saveConversation P Statement F now c q a u s m db =
     (Uncaught TypeError,
      snd (run_insert_conversation (fail_insert_conversation F)
             (inserted_row now c q a (generateQueryHash P q) u s m) (run_begin db)))"
  by (simp add: saveConversation_def Let_def split: prod.splits option.splits)

lemma save_never_settles:
  "fst (saveConversation P this F now c q a u s m db) = Uncaught TypeError"
  by (cases this) (simp add: save_statement)

lemma save_keeps_keyword_rows:
  "query_keywords (cur (snd (saveConversation P this F now c q a u s m db)))
     = query_keywords (cur db)"
  by (cases this; cases "saved db")
     (simp_all add: save_statement run_insert_conversation_def run_begin_def)

lemma save_leaves_transaction_open:
  "saved (snd (saveConversation P this F now c q a u s m db))
     = (case saved db of None \<Rightarrow> Some (cur db) | Some t \<Rightarrow> Some t)"
  by (cases this; cases "saved db")
     (simp_all add: save_statement run_insert_conversation_def run_begin_def)

lemma keys_unique_insert:
  assumes "keys_unique (cur db)"
  shows "keys_unique (cur (snd (run_insert_conversation f r db)))"
proof (cases f)
  case True
  with assms show ?thesis by (simp add: run_insert_conversation_def)
next
  case False
  let ?keep = "filter (\<lambda>c. cid c \<noteq> cid r \<and> query_hash c \<noteq> query_hash r) (conversations (cur db))"
  have "distinct (map query_hash ?keep)" "distinct (map cid ?keep)"
    using assms by (simp_all add: keys_unique_def distinct_map_filter)
  moreover have "query_hash r \<notin> query_hash ` set ?keep" "cid r \<notin> cid ` set ?keep"
    by auto
  ultimately show ?thesis
    using False by (simp add: keys_unique_def run_insert_conversation_def)
qed

lemma conn_ok_begin: "conn_ok db \<Longrightarrow> conn_ok (run_begin db)"
  by (simp add: conn_ok_def run_begin_def split: option.splits)

lemma conn_ok_insert_conversation:
  assumes "conn_ok db"
  shows "conn_ok (snd (run_insert_conversation f r db))"
proof -
  have "saved (snd (run_insert_conversation f r db)) = saved db"
    by (simp add: run_insert_conversation_def)
  with assms keys_unique_insert [of db f r] show ?thesis
    by (simp add: conn_ok_def)
qed

lemma conn_ok_save:
  assumes "conn_ok db"
  shows "conn_ok (snd (saveConversation P this F now c q a u s m db))"
  using assms
  by (cases this) (simp add: save_statement conn_ok_insert_conversation conn_ok_begin)

lemma conn_ok_initial: "conn_ok initial_db"
  by (simp add: conn_ok_def keys_unique_def initial_db_def)

lemma hash_what_is_rust:
  "generateQueryHash asciiPlatform (str ''What is Rust'') = str ''what is rust''"
  by (simp add: generateQueryHash_def trim_def isWhiteSpace_def asciiPlatform_def
        asciiLower_def plainDigest_def str_def)

lemma kw_hi: "extractKeywords asciiPlatform (str ''hi'') = []"
  by (simp add: ascii_defs)

lemma save_rust_statement:
  "save_rust Statement F db =
     (Uncaught TypeError,
      snd (run_insert_conversation (fail_insert_conversation F)
             (inserted_row (str ''2026-11-02 10:00:00'') (str ''id-2'') (str ''What is Rust'')
                   (str ''a language'') (str ''what is rust'') None None (str ''{}''))
             (run_begin db)))"
  unfolding save_rust_def save_statement hash_what_is_rust by simp

lemma save_rust_on_empty:
  "snd (save_rust Statement no_faults initial_db) =
     \<lparr>cur = \<lparr>conversations =
               [inserted_row (str ''2026-11-02 10:00:00'') (str ''id-2'') (str ''What is Rust'')
                  (str ''a language'') (str ''what is rust'') None None (str ''{}'')],
             query_keywords = [], usage_stats = []\<rparr>,
      saved = Some (cur initial_db)\<rparr>"
  by (simp add: save_rust_statement run_insert_conversation_def run_begin_def initial_db_def
        no_faults_def)

lemma save_rust_on_stored:
  "snd (save_rust Statement no_faults (rust_db n)) =
     \<lparr>cur = \<lparr>conversations =
               [inserted_row (str ''2026-11-02 10:00:00'') (str ''id-2'') (str ''What is Rust'')
                  (str ''a language'') (str ''what is rust'') None None (str ''{}'')],
             query_keywords = query_keywords (cur (rust_db n)), usage_stats = []\<rparr>,
      saved = Some (cur (rust_db n))\<rparr>"
  by (simp add: save_rust_statement run_insert_conversation_def run_begin_def rust_db_def
        one_conversation_def rust_conversation_def inserted_row_sel no_faults_def str_def)


text \<open>
  C2: the keywords of a saved query should be stored, the first with weight 1 and the
  second with weight 0.9. No save stores a keyword row: the keyword table after a save is
  the keyword table before it, because the insert of the first keyword throws. The save of
  \<open>What is Rust\<close>, keywords \<open>what\<close> and \<open>rust\<close>, on the empty store leaves the keyword
  table empty.
\<close>

theorem save_stores_no_keyword_row:
  "query_keywords (cur (snd (saveConversation P this F now c q a u s m db)))
     = query_keywords (cur db)
   \<and> length (extractKeywords asciiPlatform (str ''What is Rust'')) = 2
   \<and> query_keywords (cur (snd (save_rust Statement no_faults initial_db))) = []"
  by (simp add: save_keeps_keyword_rows kw_what_is_rust save_rust_on_empty)

text \<open>
  C9: a save whose query has no keyword should commit the conversation row and resolve with
  its id. With the \<open>this\<close> that the binding passes (the statement object), the save of the
  query \<open>hi\<close> does neither: the call \<open>this.db.run('COMMIT', ...)\<close> throws, the promise stays
  pending and the transaction stays open with the row in it.
\<close>

theorem save_without_keywords_never_settles:
  "extractKeywords asciiPlatform (str ''hi'') = []
   \<and> fst (save_hi Statement) = Uncaught TypeError
   \<and> saved (snd (save_hi Statement)) = Some (cur initial_db)
   \<and> map cid (conversations (cur (snd (save_hi Statement)))) = [str ''id-1'']"
  by (simp add: kw_hi save_hi_def save_statement run_insert_conversation_def run_begin_def
        initial_db_def no_faults_def inserted_row_sel)

text \<open>
  C10: a save should return the id generated for it, also when it replaces a conversation
  with the same fingerprint. No save returns an id: the outcome is never a resolution. The
  save of \<open>What is Rust\<close> over the stored conversation \<open>id-1\<close> of the same fingerprint
  writes the row under the generated id \<open>id-2\<close> and then throws before \<open>resolve\<close>.
\<close>

theorem save_never_returns_an_id:
  "fst (saveConversation P this F now c q a u s m db) \<noteq> Resolved r
   \<and> map cid (conversations (cur (rust_db 7))) = [str ''id-1'']
   \<and> map query_hash (conversations (cur (rust_db 7)))
       = [generateQueryHash asciiPlatform (str ''What is Rust'')]
   \<and> fst (save_rust Statement no_faults (rust_db 7)) = Uncaught TypeError
   \<and> map cid (conversations (cur (snd (save_rust Statement no_faults (rust_db 7)))))
       = [str ''id-2'']
   \<and> str ''id-2'' \<noteq> str ''id-1''"
proof -
  have 1: "fst (saveConversation P this F now c q a u s m db) \<noteq> Resolved r"
    by (simp add: save_never_settles)
  have 2: "map cid (conversations (cur (rust_db 7))) = [str ''id-1'']
     \<and> map query_hash (conversations (cur (rust_db 7)))
         = [generateQueryHash asciiPlatform (str ''What is Rust'')]"
    by (simp add: hash_what_is_rust rust_db_def one_conversation_def rust_conversation_def)
  have 3: "fst (save_rust Statement no_faults (rust_db 7)) = Uncaught TypeError"
    by (simp add: save_rust_statement)
  have 4: "map cid (conversations (cur (snd (save_rust Statement no_faults (rust_db 7)))))
       = [str ''id-2'']"
    by (simp add: save_rust_on_stored inserted_row_sel)
  have 5: "str ''id-2'' \<noteq> str ''id-1''"
    by (simp add: str_def)
  from 1 2 3 4 5 show ?thesis by blast
qed

text \<open>
  C6: a save whose fingerprint is already stored should replace that conversation by one
  with usage counter 1. The save of \<open>What is Rust\<close> over the stored conversation of the
  same fingerprint, used 7 times, runs the replacing insert inside the transaction it
  opened and then throws: nothing commits the transaction, and the tables it would commit
  to still hold the old conversation with its counter 7. Fingerprints stay unique all the
  while.
\<close>

theorem save_replacement_never_committed:
  "fst (save_rust Statement no_faults (rust_db 7)) = Uncaught TypeError
   \<and> saved (snd (save_rust Statement no_faults (rust_db 7))) = Some (cur (rust_db 7))
   \<and> map (\<lambda>c. (cid c, usage_count c)) (conversations (cur (rust_db 7)))
       = [(str ''id-1'', 7)]
   \<and> map (\<lambda>c. (cid c, usage_count c))
        (conversations (cur (snd (save_rust Statement no_faults (rust_db 7)))))
       = [(str ''id-2'', 1)]
   \<and> conn_ok (snd (save_rust Statement no_faults (rust_db 7)))"
proof -
  have k: "conn_ok (rust_db 7)"
    by (simp add: conn_ok_def keys_unique_def rust_db_def one_conversation_def)
  have 1: "conn_ok (snd (save_rust Statement no_faults (rust_db 7)))"
    unfolding save_rust_def using k by (rule conn_ok_save)
  have 2: "map (\<lambda>c. (cid c, usage_count c)) (conversations (cur (rust_db 7)))
       = [(str ''id-1'', 7)]"
    by (simp add: rust_db_def one_conversation_def rust_conversation_def)
  have 3: "fst (save_rust Statement no_faults (rust_db 7)) = Uncaught TypeError"
    by (simp add: save_rust_statement)
  have 4: "saved (snd (save_rust Statement no_faults (rust_db 7))) = Some (cur (rust_db 7))
     \<and> map (\<lambda>c. (cid c, usage_count c))
        (conversations (cur (snd (save_rust Statement no_faults (rust_db 7)))))
       = [(str ''id-2'', 1)]"
    by (simp add: save_rust_on_stored inserted_row_sel)
  from 1 2 3 4 show ?thesis by blast
qed

subsection \<open>Searching\<close>


















lemma find_similar_refused:
  assumes "\<not> fail_get F"
    and "find (\<lambda>c. query_hash c = generateQueryHash P query) (conversations (cur db)) = None"
    and "extractKeywords P query \<noteq> []"
    and "max_variables P < length (extractKeywords P query) + 2 \<or> N < - (2 ^ 63) \<or> 2 ^ 63 \<le> N"
  shows "findSimilarConversations P F now query (Some N) (Some t) db = (Rejected StorageError, db)"
  using assms
  by (auto simp add: findSimilarConversations_def select_by_hash_def select_similar_def Let_def)

lemma find_unique:
  "distinct (map f xs) \<Longrightarrow> c \<in> set xs \<Longrightarrow> f c = h \<Longrightarrow> find (\<lambda>x. f x = h) xs = Some c"
  by (induction xs) auto

lemma find_exact_path:
  assumes "\<not> fail_get F" and "c \<in> set (conversations (cur db))"
    and "query_hash c = generateQueryHash P query"
    and "distinct (map query_hash (conversations (cur db)))"
  shows "findSimilarConversations P F now query limitArg minSimilarityArg db
     = (Resolved [as_exact c], updateUsageCount F now (cid c) db)"
proof -
  from find_unique [OF assms(4) assms(2) assms(3)]
  have "find (\<lambda>x. query_hash x = generateQueryHash P query) (conversations (cur db)) = Some c" .
  with assms(1) show ?thesis
    by (simp add: findSimilarConversations_def select_by_hash_def Let_def)
qed

text \<open>
  C5: when a stored conversation has the fingerprint of the query (fingerprints being
  unique and the lookup not failing), the search resolves with that conversation alone,
  with similarity 1 and match type exact, whatever the limit and the threshold are; the
  keyword query is not run, and the usage of that conversation is recorded.
\<close>

theorem exact_match_wins:
  "\<not> fail_get F \<and> c \<in> set (conversations (cur db))
     \<and> query_hash c = generateQueryHash P query
     \<and> distinct (map query_hash (conversations (cur db))) \<longrightarrow>
   findSimilarConversations P F now query limitArg minSimilarityArg db
     = (Resolved [as_exact c], updateUsageCount F now (cid c) db)
   \<and> row (as_exact c) = c \<and> similarity (as_exact c) = 1 \<and> matchType (as_exact c) = Exact"
  using find_exact_path by (simp add: as_exact_def)

lemma hash_What_Is_Rust:
  "generateQueryHash asciiPlatform (str ''What Is Rust'') = str ''what is rust''"
  by (simp add: generateQueryHash_def trim_def isWhiteSpace_def asciiPlatform_def
        asciiLower_def plainDigest_def str_def)

theorem exact_match_wins_witness:
  "\<not> fail_get no_faults
   \<and> rust_conversation (str ''id-1'') (str ''2026-09-23 10:00:00'') 7
        \<in> set (conversations (cur (rust_db 7)))
   \<and> query_hash (rust_conversation (str ''id-1'') (str ''2026-09-23 10:00:00'') 7)
        = generateQueryHash asciiPlatform (str ''What Is Rust'')
   \<and> distinct (map query_hash (conversations (cur (rust_db 7))))
   \<and> fst (findSimilarConversations asciiPlatform no_faults (str ''2026-11-02 10:00:00'')
        (str ''What Is Rust'') (Some 5) (Some (9 / 10)) (rust_db 7))
     = Resolved [as_exact (rust_conversation (str ''id-1'') (str ''2026-09-23 10:00:00'') 7)]
   \<and> fst (findSimilarConversations asciiPlatform no_faults (str ''2026-11-02 10:00:00'')
        (str ''What Is Rust'') (Some 0) (Some 1) (rust_db 7))
     = Resolved [as_exact (rust_conversation (str ''id-1'') (str ''2026-09-23 10:00:00'') 7)]"
proof -
  let ?c = "rust_conversation (str ''id-1'') (str ''2026-09-23 10:00:00'') 7"
  have a: "\<not> fail_get no_faults" by (simp add: no_faults_def)
  have b: "?c \<in> set (conversations (cur (rust_db 7)))"
    by (simp add: rust_db_def one_conversation_def)
  have c: "query_hash ?c = generateQueryHash asciiPlatform (str ''What Is Rust'')"
    by (simp add: hash_What_Is_Rust rust_conversation_def)
  have d: "distinct (map query_hash (conversations (cur (rust_db 7))))"
    by (simp add: rust_db_def one_conversation_def)
  from exact_match_wins [of no_faults ?c "rust_db 7" asciiPlatform "str ''What Is Rust''"
         "str ''2026-11-02 10:00:00''" "Some 5" "Some (9 / 10)"] a b c d
  have e: "fst (findSimilarConversations asciiPlatform no_faults (str ''2026-11-02 10:00:00'')
        (str ''What Is Rust'') (Some 5) (Some (9 / 10)) (rust_db 7)) = Resolved [as_exact ?c]"
    by simp
  from exact_match_wins [of no_faults ?c "rust_db 7" asciiPlatform "str ''What Is Rust''"
         "str ''2026-11-02 10:00:00''" "Some 0" "Some 1"] a b c d
  have f: "fst (findSimilarConversations asciiPlatform no_faults (str ''2026-11-02 10:00:00'')
        (str ''What Is Rust'') (Some 0) (Some 1) (rust_db 7)) = Resolved [as_exact ?c]"
    by simp
  from a b c d e f show ?thesis by blast
qed


lemmas engine_defs = asciiPlatform_def exactSum_def exactDiv_def idOrder_def






lemma full_tie_ranked:
  "map (\<lambda>r. cid (s_conv r))
     (sql_limit 1 (ranked_candidates asciiPlatform [str ''rust''] (1 / 2) (cur full_tie_db)))
   = [str ''id-a'']"
  by (simp add: ranked_candidates_def grouped_def score_row_def matching_keywords_def
        ranks_before_def full_tie_db_def tie_conversation_def engine_defs str_def Let_def
        sql_limit_def)





subsection \<open>Cleaning up\<close>

lemma take_less_imp_less:
  fixes a b :: "nat list"
  shows "take n a < take n b \<Longrightarrow> a < b"
proof (induction n arbitrary: a b)
  case 0
  then show ?case by simp
next
  case (Suc n)
  show ?case
  proof (cases a)
    case Nil
    with Suc.prems show ?thesis by (cases b) simp_all
  next
    case (Cons x xs)
    note a = this
    show ?thesis
    proof (cases b)
      case Nil
      with Suc.prems a show ?thesis by simp
    next
      case (Cons y ys)
      with Suc.prems a Suc.IH [of xs ys] show ?thesis by auto
    qed
  qed
qed

lemma less_imp_take_le:
  fixes a b :: "nat list"
  shows "a < b \<Longrightarrow> take n a \<le> take n b"
proof (rule ccontr)
  assume "a < b" and "\<not> take n a \<le> take n b"
  then have "take n b < take n a" by simp
  then have "b < a" by (rule take_less_imp_less)
  with \<open>a < b\<close> show False by simp
qed

lemma cleanup_exact:
  assumes "isoDaysAgo (case daysOldArg of None \<Rightarrow> 30 | Some d \<Rightarrow> d) = Some cutoff"
    and "\<not> fail_delete F"
  shows "cleanupOldRecords isoDaysAgo this F daysOldArg db =
     (Resolved (length (filter (\<lambda>c. created_at c < cutoff \<and> usage_count c < 2)
                          (conversations (cur db)))),
      db\<lparr>cur := (cur db)\<lparr>conversations :=
         filter (\<lambda>c. \<not> (created_at c < cutoff \<and> usage_count c < 2))
           (conversations (cur db))\<rparr>\<rparr>)"
  using assms by (cases this) (simp add: cleanupOldRecords_def Let_def)

lemma cleanup_out_of_range:
  assumes "isoDaysAgo (case daysOldArg of None \<Rightarrow> 30 | Some d \<Rightarrow> d) = None"
  shows "cleanupOldRecords isoDaysAgo this F daysOldArg db = (Rejected RangeError, db)"
  using assms by (simp add: cleanupOldRecords_def Let_def)

lemma clock_30: "clock_2026_11_02 30 = Some (str ''2026-10-03T10:00:00.000Z'')"
  by (simp add: clock_2026_11_02_def)

lemma rust_db_conversations:
  "conversations (cur (rust_db n))
     = [rust_conversation (str ''id-1'') (str ''2026-09-23 10:00:00'') n]"
  by (simp add: rust_db_def one_conversation_def)

lemma rust_created_before_cutoff:
  "created_at (rust_conversation (str ''id-1'') (str ''2026-09-23 10:00:00'') n)
     < str ''2026-10-03T10:00:00.000Z''"
  by (simp add: rust_conversation_def str_def)

lemma cleanup_rust_db:
  "cleanupOldRecords clock_2026_11_02 Statement no_faults (Some 30) (rust_db n)
     = (if n < 2
        then (Resolved 1, (rust_db n)\<lparr>cur := (cur (rust_db n))\<lparr>conversations := []\<rparr>\<rparr>)
        else (Resolved 0, rust_db n))"
proof -
  have c: "clock_2026_11_02 (case Some 30 of None \<Rightarrow> 30 | Some d \<Rightarrow> d)
             = Some (str ''2026-10-03T10:00:00.000Z'')"
    by (simp add: clock_30)
  have f: "\<not> fail_delete no_faults" by (simp add: no_faults_def)
  have u: "usage_count (rust_conversation (str ''id-1'') (str ''2026-09-23 10:00:00'') n) = n"
    by (simp add: rust_conversation_def)
  show ?thesis
    unfolding cleanup_exact
        [where isoDaysAgo = clock_2026_11_02 and daysOldArg = "Some 30"
           and cutoff = "str ''2026-10-03T10:00:00.000Z''" and F = no_faults, OF c f]
      rust_db_conversations
    using rust_created_before_cutoff [of n]
    by (simp add: u rust_db_def one_conversation_def)
qed

text \<open>
  C3, as amended: \<open>cleanupOldRecords(daysOld)\<close> has no usage threshold among its arguments;
  the bound is 2. When the cutoff date is outside the range of \<open>Date\<close> the call is rejected
  with a RangeError and nothing is deleted; when the delete fails it is rejected and
  nothing is deleted. Otherwise it adds nothing and keeps every conversation with usage
  count 2 or more, whatever its age. Every conversation it deletes has usage count below 2
  and a date part (the first ten characters of \<open>created_at\<close>) that is, as text, not after
  the first ten characters of the cutoff string; every conversation with usage count
  below 2 whose date part is, as text, before that of the cutoff string is deleted. It
  resolves with the number of conversations removed and leaves the keyword rows alone.
\<close>

theorem cleanup_removes_stale_unused:
  "(isoDaysAgo (case daysOldArg of None \<Rightarrow> 30 | Some d \<Rightarrow> d) = None \<longrightarrow>
      cleanupOldRecords isoDaysAgo Statement F daysOldArg db = (Rejected RangeError, db))
   \<and> (isoDaysAgo (case daysOldArg of None \<Rightarrow> 30 | Some d \<Rightarrow> d) = Some cutoff \<and> fail_delete F
      \<longrightarrow> cleanupOldRecords isoDaysAgo Statement F daysOldArg db = (Rejected StorageError, db))
   \<and> (isoDaysAgo (case daysOldArg of None \<Rightarrow> 30 | Some d \<Rightarrow> d) = Some cutoff
      \<and> \<not> fail_delete F \<longrightarrow>
     set (conversations (cur (snd (cleanupOldRecords isoDaysAgo Statement F daysOldArg db))))
       \<subseteq> set (conversations (cur db))
   \<and> (\<forall>c \<in> set (conversations (cur db)). usage_count c \<ge> 2 \<longrightarrow>
         c \<in> set (conversations (cur (snd (cleanupOldRecords isoDaysAgo Statement F daysOldArg db)))))
   \<and> (\<forall>c \<in> set (conversations (cur db)).
         c \<notin> set (conversations (cur (snd (cleanupOldRecords isoDaysAgo Statement F daysOldArg db))))
         \<longrightarrow> usage_count c < 2 \<and> take 10 (created_at c) \<le> take 10 cutoff)
   \<and> (\<forall>c \<in> set (conversations (cur db)).
         usage_count c < 2 \<and> take 10 (created_at c) < take 10 cutoff
         \<longrightarrow> c \<notin> set (conversations (cur (snd (cleanupOldRecords isoDaysAgo Statement F daysOldArg db)))))
   \<and> fst (cleanupOldRecords isoDaysAgo Statement F daysOldArg db)
       = Resolved (length (conversations (cur db))
           - length (conversations (cur (snd (cleanupOldRecords isoDaysAgo Statement F daysOldArg db)))))
   \<and> query_keywords (cur (snd (cleanupOldRecords isoDaysAgo Statement F daysOldArg db)))
       = query_keywords (cur db))"
proof (intro conjI)
  show "isoDaysAgo (case daysOldArg of None \<Rightarrow> 30 | Some d \<Rightarrow> d) = None \<longrightarrow>
      cleanupOldRecords isoDaysAgo Statement F daysOldArg db = (Rejected RangeError, db)"
    by (simp add: cleanup_out_of_range)
  show "isoDaysAgo (case daysOldArg of None \<Rightarrow> 30 | Some d \<Rightarrow> d) = Some cutoff \<and> fail_delete F
      \<longrightarrow> cleanupOldRecords isoDaysAgo Statement F daysOldArg db = (Rejected StorageError, db)"
    by (simp add: cleanupOldRecords_def Let_def)
  show "isoDaysAgo (case daysOldArg of None \<Rightarrow> 30 | Some d \<Rightarrow> d) = Some cutoff
      \<and> \<not> fail_delete F \<longrightarrow>
     set (conversations (cur (snd (cleanupOldRecords isoDaysAgo Statement F daysOldArg db))))
       \<subseteq> set (conversations (cur db))
   \<and> (\<forall>c \<in> set (conversations (cur db)). usage_count c \<ge> 2 \<longrightarrow>
         c \<in> set (conversations (cur (snd (cleanupOldRecords isoDaysAgo Statement F daysOldArg db)))))
   \<and> (\<forall>c \<in> set (conversations (cur db)).
         c \<notin> set (conversations (cur (snd (cleanupOldRecords isoDaysAgo Statement F daysOldArg db))))
         \<longrightarrow> usage_count c < 2 \<and> take 10 (created_at c) \<le> take 10 cutoff)
   \<and> (\<forall>c \<in> set (conversations (cur db)).
         usage_count c < 2 \<and> take 10 (created_at c) < take 10 cutoff
         \<longrightarrow> c \<notin> set (conversations (cur (snd (cleanupOldRecords isoDaysAgo Statement F daysOldArg db)))))
   \<and> fst (cleanupOldRecords isoDaysAgo Statement F daysOldArg db)
       = Resolved (length (conversations (cur db))
           - length (conversations (cur (snd (cleanupOldRecords isoDaysAgo Statement F daysOldArg db)))))
   \<and> query_keywords (cur (snd (cleanupOldRecords isoDaysAgo Statement F daysOldArg db)))
       = query_keywords (cur db)"
  proof
    assume h: "isoDaysAgo (case daysOldArg of None \<Rightarrow> 30 | Some d \<Rightarrow> d) = Some cutoff
      \<and> \<not> fail_delete F"
  then have c: "isoDaysAgo (case daysOldArg of None \<Rightarrow> 30 | Some d \<Rightarrow> d) = Some cutoff"
    and f: "\<not> fail_delete F" by simp_all
  let ?old = "\<lambda>c. created_at c < cutoff \<and> usage_count c < 2"
  let ?before = "conversations (cur db)"
  note exact = cleanup_exact
    [where isoDaysAgo = isoDaysAgo and daysOldArg = daysOldArg and cutoff = cutoff
       and F = F and this = Statement and db = db, OF c f]
  have after: "conversations (cur (snd (cleanupOldRecords isoDaysAgo Statement F daysOldArg db)))
                 = filter (\<lambda>c. \<not> ?old c) ?before"
    by (simp add: exact)
  have count: "fst (cleanupOldRecords isoDaysAgo Statement F daysOldArg db)
                 = Resolved (length (filter ?old ?before))"
    by (simp add: exact)
  have len: "length (filter ?old ?before) = length ?before - length (filter (\<lambda>c. \<not> ?old c) ?before)"
    using sum_length_filter_compl [of ?old ?before] by simp
  have kw: "query_keywords (cur (snd (cleanupOldRecords isoDaysAgo Statement F daysOldArg db)))
       = query_keywords (cur db)"
    by (simp add: exact)
  have ii: "\<forall>c \<in> set ?before. c \<notin> set (filter (\<lambda>c. \<not> ?old c) ?before)
              \<longrightarrow> usage_count c < 2 \<and> take 10 (created_at c) \<le> take 10 cutoff"
  proof (intro ballI impI)
    fix c
    assume "c \<in> set ?before" and "c \<notin> set (filter (\<lambda>c. \<not> ?old c) ?before)"
    then have o: "created_at c < cutoff" and u: "usage_count c < 2" by simp_all
    from o have "take 10 (created_at c) \<le> take 10 cutoff" by (rule less_imp_take_le)
    with u show "usage_count c < 2 \<and> take 10 (created_at c) \<le> take 10 cutoff" by simp
  qed
  have iii: "\<forall>c \<in> set ?before. usage_count c < 2 \<and> take 10 (created_at c) < take 10 cutoff
              \<longrightarrow> c \<notin> set (filter (\<lambda>c. \<not> ?old c) ?before)"
  proof (intro ballI impI)
    fix c
    assume "c \<in> set ?before"
      and g: "usage_count c < 2 \<and> take 10 (created_at c) < take 10 cutoff"
    then have "take 10 (created_at c) < take 10 cutoff" by simp
    then have "created_at c < cutoff" by (rule take_less_imp_less)
    with g show "c \<notin> set (filter (\<lambda>c. \<not> ?old c) ?before)" by simp
  qed
  have i: "\<forall>c \<in> set ?before. usage_count c \<ge> 2 \<longrightarrow> c \<in> set (filter (\<lambda>c. \<not> ?old c) ?before)"
    by simp
  have sub: "set (filter (\<lambda>c. \<not> ?old c) ?before) \<subseteq> set ?before"
    by simp
  have cnt: "fst (cleanupOldRecords isoDaysAgo Statement F daysOldArg db)
       = Resolved (length ?before - length (filter (\<lambda>c. \<not> ?old c) ?before))"
    by (simp only: count len)
  from sub i ii iii cnt kw
  show "set (conversations (cur (snd (cleanupOldRecords isoDaysAgo Statement F daysOldArg db))))
       \<subseteq> set (conversations (cur db))
   \<and> (\<forall>c \<in> set (conversations (cur db)). usage_count c \<ge> 2 \<longrightarrow>
         c \<in> set (conversations (cur (snd (cleanupOldRecords isoDaysAgo Statement F daysOldArg db)))))
   \<and> (\<forall>c \<in> set (conversations (cur db)).
         c \<notin> set (conversations (cur (snd (cleanupOldRecords isoDaysAgo Statement F daysOldArg db))))
         \<longrightarrow> usage_count c < 2 \<and> take 10 (created_at c) \<le> take 10 cutoff)
   \<and> (\<forall>c \<in> set (conversations (cur db)).
         usage_count c < 2 \<and> take 10 (created_at c) < take 10 cutoff
         \<longrightarrow> c \<notin> set (conversations (cur (snd (cleanupOldRecords isoDaysAgo Statement F daysOldArg db)))))
   \<and> fst (cleanupOldRecords isoDaysAgo Statement F daysOldArg db)
       = Resolved (length (conversations (cur db))
           - length (conversations (cur (snd (cleanupOldRecords isoDaysAgo Statement F daysOldArg db)))))
   \<and> query_keywords (cur (snd (cleanupOldRecords isoDaysAgo Statement F daysOldArg db)))
       = query_keywords (cur db)"
    by (simp only: after)
  qed
qed

theorem cleanup_removes_stale_unused_witness:
  "clock_2026_11_02 (case Some 30 of None \<Rightarrow> 30 | Some d \<Rightarrow> d)
     = Some (str ''2026-10-03T10:00:00.000Z'')
   \<and> \<not> fail_delete no_faults
   \<and> rust_conversation (str ''id-1'') (str ''2026-09-23 10:00:00'') 1
       \<in> set (conversations (cur (rust_db 1)))
   \<and> usage_count (rust_conversation (str ''id-1'') (str ''2026-09-23 10:00:00'') 1) < 2
   \<and> take 10 (created_at (rust_conversation (str ''id-1'') (str ''2026-09-23 10:00:00'') 1))
       < take 10 (str ''2026-10-03T10:00:00.000Z'')
   \<and> rust_conversation (str ''id-1'') (str ''2026-09-23 10:00:00'') 1
       \<notin> set (conversations (cur (snd
             (cleanupOldRecords clock_2026_11_02 Statement no_faults (Some 30) (rust_db 1)))))
   \<and> fst (cleanupOldRecords clock_2026_11_02 Statement no_faults (Some 30) (rust_db 1))
       = Resolved 1
   \<and> rust_conversation (str ''id-1'') (str ''2026-09-23 10:00:00'') 5
       \<in> set (conversations (cur (rust_db 5)))
   \<and> usage_count (rust_conversation (str ''id-1'') (str ''2026-09-23 10:00:00'') 5) \<ge> 2
   \<and> rust_conversation (str ''id-1'') (str ''2026-09-23 10:00:00'') 5
       \<in> set (conversations (cur (snd
             (cleanupOldRecords clock_2026_11_02 Statement no_faults (Some 30) (rust_db 5)))))
   \<and> fst (cleanupOldRecords clock_2026_11_02 Statement no_faults (Some 30) (rust_db 5))
       = Resolved 0
   \<and> clock_2026_11_02 (case Some 200000000 of None \<Rightarrow> 30 | Some d \<Rightarrow> d) = None
   \<and> cleanupOldRecords clock_2026_11_02 Statement no_faults (Some 200000000) (rust_db 1)
       = (Rejected RangeError, rust_db 1)"
proof -
  let ?c1 = "rust_conversation (str ''id-1'') (str ''2026-09-23 10:00:00'') 1"
  let ?c5 = "rust_conversation (str ''id-1'') (str ''2026-09-23 10:00:00'') 5"
  have k: "clock_2026_11_02 (case Some 30 of None \<Rightarrow> 30 | Some d \<Rightarrow> d)
             = Some (str ''2026-10-03T10:00:00.000Z'')"
    by (simp add: clock_30)
  have z: "clock_2026_11_02 (case Some 200000000 of None \<Rightarrow> 30 | Some d \<Rightarrow> d) = None"
    by (simp add: clock_2026_11_02_def)
  have f: "\<not> fail_delete no_faults" by (simp add: no_faults_def)
  have m1: "?c1 \<in> set (conversations (cur (rust_db 1)))"
    and m5: "?c5 \<in> set (conversations (cur (rust_db 5)))"
    by (simp_all add: rust_db_conversations)
  have u1: "usage_count ?c1 < 2" and u5: "usage_count ?c5 \<ge> 2"
    by (simp_all add: rust_conversation_def)
  have d1: "take 10 (created_at ?c1) < take 10 (str ''2026-10-03T10:00:00.000Z'')"
    by (simp add: rust_conversation_def str_def)
  from cleanup_removes_stale_unused
         [of clock_2026_11_02 "Some 30" no_faults "rust_db 1" "str ''2026-10-03T10:00:00.000Z''"]
       k f m1 u1 d1
  have g1: "?c1 \<notin> set (conversations (cur (snd
             (cleanupOldRecords clock_2026_11_02 Statement no_faults (Some 30) (rust_db 1)))))"
    by blast
  from cleanup_removes_stale_unused
         [of clock_2026_11_02 "Some 30" no_faults "rust_db 5" "str ''2026-10-03T10:00:00.000Z''"]
       k f m5 u5
  have g5: "?c5 \<in> set (conversations (cur (snd
             (cleanupOldRecords clock_2026_11_02 Statement no_faults (Some 30) (rust_db 5)))))"
    by blast
  from cleanup_removes_stale_unused
         [of clock_2026_11_02 "Some 200000000" no_faults "rust_db 1"] z
  have r: "cleanupOldRecords clock_2026_11_02 Statement no_faults (Some 200000000) (rust_db 1)
       = (Rejected RangeError, rust_db 1)"
    by blast
  have n1: "fst (cleanupOldRecords clock_2026_11_02 Statement no_faults (Some 30) (rust_db 1))
       = Resolved 1"
    by (simp add: cleanup_rust_db)
  have n5: "fst (cleanupOldRecords clock_2026_11_02 Statement no_faults (Some 30) (rust_db 5))
       = Resolved 0"
    by (simp add: cleanup_rust_db)
  from k z f m1 u1 d1 g1 n1 m5 u5 g5 n5 r show ?thesis by blast
qed

text \<open>
  The claim lets the caller choose the threshold. A call \<open>cleanupOldRecords(30, 5)\<close> passes
  a second argument that the function does not have: the conversation used 3 times and 40
  days old stays, where a threshold of 5 would remove it.
\<close>

theorem purge_threshold_is_not_an_argument:
  "usage_count (rust_conversation (str ''id-1'') (str ''2026-09-23 10:00:00'') 3) < 5
   \<and> clock_2026_11_02 30 = Some (str ''2026-10-03T10:00:00.000Z'')
   \<and> created_at (rust_conversation (str ''id-1'') (str ''2026-09-23 10:00:00'') 3)
       < str ''2026-10-03T10:00:00.000Z''
   \<and> Purge_spec (str ''2026-10-03T10:00:00.000Z'') 5 (conversations (cur (rust_db 3))) = []
   \<and> conversations (cur (snd
        (cleanupOldRecords clock_2026_11_02 Statement no_faults (Some 30) (rust_db 3))))
     = [rust_conversation (str ''id-1'') (str ''2026-09-23 10:00:00'') 3]
   \<and> fst (cleanupOldRecords clock_2026_11_02 Statement no_faults (Some 30) (rust_db 3))
     = Resolved 0"
proof -
  have u: "usage_count (rust_conversation (str ''id-1'') (str ''2026-09-23 10:00:00'') 3) = 3"
    by (simp add: rust_conversation_def)
  have p: "Purge_spec (str ''2026-10-03T10:00:00.000Z'') 5 (conversations (cur (rust_db 3))) = []"
    using rust_created_before_cutoff [of 3]
    by (simp add: Purge_spec_def rust_db_conversations u)
  have k: "cleanupOldRecords clock_2026_11_02 Statement no_faults (Some 30) (rust_db 3)
             = (Resolved 0, rust_db 3)"
    by (simp add: cleanup_rust_db)
  from u p rust_created_before_cutoff [of 3] clock_30 show ?thesis
    by (simp add: k rust_db_conversations)
qed

text \<open>
  The cutoff is an ISO string with \<open>T\<close> after the date, \<open>created_at\<close> has a space there,
  and the two are compared as text: a conversation created on the day of the cutoff is
  below the cutoff whatever its time of day.
\<close>

lemma cleanup_compares_text:
  "str ''2026-10-03 12:00:00'' < str ''2026-10-03T10:00:00.000Z''
   \<and> conversations (cur (snd
        (cleanupOldRecords clock_2026_11_02 Statement no_faults (Some 30)
           (one_conversation
              (rust_conversation (str ''id-1'') (str ''2026-10-03 12:00:00'') 1) []))))
     = []"
proof -
  have c: "clock_2026_11_02 (case Some 30 of None \<Rightarrow> 30 | Some d \<Rightarrow> d)
             = Some (str ''2026-10-03T10:00:00.000Z'')"
    by (simp add: clock_30)
  have f: "\<not> fail_delete no_faults" by (simp add: no_faults_def)
  have l: "str ''2026-10-03 12:00:00'' < str ''2026-10-03T10:00:00.000Z''"
    by (simp add: str_def)
  show ?thesis
    unfolding cleanup_exact
        [where isoDaysAgo = clock_2026_11_02 and daysOldArg = "Some 30"
           and cutoff = "str ''2026-10-03T10:00:00.000Z''" and F = no_faults, OF c f]
    using l by (simp add: one_conversation_def rust_conversation_def)
qed

end
